theory Spec2Isabelle
  imports Main "HOL-Library.Sublist"
begin

section \<open>lambda-builder: the build pipeline of \<^verbatim>\<open>builders/main.go\<close>\<close>

text \<open>
  Go strings are byte sequences, modelled as \<^typ>\<open>string\<close>. A Go \<^verbatim>\<open>error\<close> is a message,
  possibly wrapping a cause (\<^verbatim>\<open>fmt.Errorf("...: %w", err)\<close>).
\<close>

datatype error = Err string | Wrapped string error

fun Error :: "error \<Rightarrow> string" where
  "Error (Err s) = s"
| "Error (Wrapped p e) = p @ '': '' @ Error e"

subsection \<open>Data model (lines 29--60)\<close>

record Config =
  BuildEnv :: "string list"
  Builder :: string
  BuilderBuildImage :: string
  BuilderRunImage :: string
  GenerateRunImage :: bool
  Handler :: string
  HandlerMap :: "string \<rightharpoonup> string"
  Identifier :: string
  ImageEnv :: "string list"
  ImageLabels :: "string list"
  ImageTag :: string
  Port :: int
  RunQuiet :: bool
  WorkingDirectory :: string
  WriteProcfile :: bool

text \<open>The override document \<^verbatim>\<open>lambda.yml\<close>; its first field is \<^verbatim>\<open>Builder\<close> in the source.\<close>

record LambdaYML =
  Builder_yml :: string
  BuildImage :: string
  RunImage :: string

subsection \<open>\<^verbatim>\<open>strconv.Itoa\<close>\<close>

definition digit :: "nat \<Rightarrow> char" where
  "digit d = ''0123456789'' ! d"

fun formatBits :: "nat \<Rightarrow> string" where
  "formatBits n = (if n < 10 then [digit n] else formatBits (n div 10) @ [digit (n mod 10)])"

declare formatBits.simps [simp del]

definition Itoa :: "int \<Rightarrow> string" where
  "Itoa i = (if i < 0 then CHR ''-'' # formatBits (nat (- i)) else formatBits (nat i))"

subsection \<open>The template engine (\<^verbatim>\<open>html/template\<close>), as far as the Dockerfile template uses it\<close>

text \<open>
  A template value is a string, a slice of strings, or no value at all: looking up a key
  that a \<^verbatim>\<open>map[string]interface{}\<close> does not have gives the invalid \<^verbatim>\<open>reflect.Value\<close>.
  The cursor (dot) is the data map at top level and the current element inside \<^verbatim>\<open>range\<close>.
\<close>

datatype tval = TString string | TStrings "string list" | TNoValue

datatype tdot = DMap "string \<rightharpoonup> tval" | DVal tval

datatype targ = Field string | Dot | Lit string

datatype tpipe = Arg targ | Ne targ targ

datatype tnode =
    TText string
  | TAction tpipe
  | TIf tpipe "tnode list"
  | TRange tpipe "tnode list"

text \<open>
  The escaper that \<^verbatim>\<open>html/template\<close> appends to every action in HTML text context
  (\<^verbatim>\<open>htmlReplacementTable\<close>); it works on ASCII runes only, so byte by byte.
\<close>

definition htmlReplacementTable :: "char \<Rightarrow> string" where
  "htmlReplacementTable c =
     (if c = CHR 0x00 then [CHR 0xEF, CHR 0xBF, CHR 0xBD]
      else if c = CHR 0x22 then ''&#34;''
      else if c = CHR ''&'' then ''&amp;''
      else if c = CHR 0x27 then ''&#39;''
      else if c = CHR ''+'' then ''&#43;''
      else if c = CHR ''<'' then ''&lt;''
      else if c = CHR ''>'' then ''&gt;''
      else [c])"

definition htmlEscaper :: "string \<Rightarrow> string" where
  "htmlEscaper s = concat (map htmlReplacementTable s)"

text \<open>
  The builtin \<^verbatim>\<open>eq\<close>, of which \<^verbatim>\<open>ne\<close> is the negation: two strings compare by content; an
  invalid value is unequal to every valid one and equal to another invalid one (so the
  library has it in the Go releases that have \<^verbatim>\<open>os.MkdirTemp\<close>, which line 67 calls);
  slices are not comparable.
\<close>

fun eq_tval :: "tval \<Rightarrow> tval \<Rightarrow> error + bool" where
  "eq_tval (TStrings xs) b = Inl (Err ''error calling eq: uncomparable type'')"
| "eq_tval a (TStrings ys) = Inl (Err ''error calling eq: uncomparable type'')"
| "eq_tval (TString a) (TString b) = Inr (a = b)"
| "eq_tval TNoValue TNoValue = Inr True"
| "eq_tval TNoValue (TString b) = Inr False"
| "eq_tval (TString a) TNoValue = Inr False"

datatype tres = RVal tval | RBool bool

fun evalField :: "tdot \<Rightarrow> string \<Rightarrow> error + tval" where
  "evalField (DMap m) name = (case m name of Some v \<Rightarrow> Inr v | None \<Rightarrow> Inr TNoValue)"
| "evalField (DVal v) name = Inl (Err (''can't evaluate field '' @ name))"

text \<open>
  An argument is a field of the cursor, the cursor itself or a string literal. The
  template never passes the data map itself as a value, so that one combination is left
  out of the model and reported as an error of its own.
\<close>

fun evalArg :: "tdot \<Rightarrow> targ \<Rightarrow> error + tval" where
  "evalArg d (Field name) = evalField d name"
| "evalArg (DVal v) Dot = Inr v"
| "evalArg (DMap m) Dot = Inl (Err ''unsupported: the data map as a value'')"
| "evalArg d (Lit s) = Inr (TString s)"

fun evalPipeline :: "tdot \<Rightarrow> tpipe \<Rightarrow> error + tres" where
  "evalPipeline d (Arg a) =
     (case evalArg d a of Inl e \<Rightarrow> Inl e | Inr v \<Rightarrow> Inr (RVal v))"
| "evalPipeline d (Ne a b) =
     (case evalArg d a of Inl e \<Rightarrow> Inl e
      | Inr x \<Rightarrow> (case evalArg d b of Inl e \<Rightarrow> Inl e
          | Inr y \<Rightarrow> (case eq_tval x y of Inl e \<Rightarrow> Inl e | Inr t \<Rightarrow> Inr (RBool (\<not> t)))))"

text \<open>Truth of an \<^verbatim>\<open>if\<close> pipeline: the empty value of each kind is false.\<close>

fun isTrue :: "tres \<Rightarrow> bool" where
  "isTrue (RBool b) = b"
| "isTrue (RVal (TString s)) = (s \<noteq> [])"
| "isTrue (RVal (TStrings xs)) = (xs \<noteq> [])"
| "isTrue (RVal TNoValue) = False"

text \<open>
  Printing through the escaper: a string is escaped, a missing value prints nothing, a
  slice prints in \<^verbatim>\<open>fmt\<close>'s bracket form.
\<close>

fun join_sp :: "string list \<Rightarrow> string" where
  "join_sp [] = []"
| "join_sp [x] = x"
| "join_sp (x # y # ys) = x @ '' '' @ join_sp (y # ys)"

fun printValue :: "tres \<Rightarrow> string" where
  "printValue (RVal (TString s)) = htmlEscaper s"
| "printValue (RVal TNoValue) = []"
| "printValue (RVal (TStrings xs)) = htmlEscaper (''['' @ join_sp xs @ '']'')"
| "printValue (RBool b) = (if b then ''true'' else ''false'')"

text \<open>Output of a node sequence: the pieces in order, up to the first error.\<close>

fun seq_out :: "(error + string) list \<Rightarrow> error + string" where
  "seq_out [] = Inr []"
| "seq_out (r # rs) =
     (case r of Inl e \<Rightarrow> Inl e
      | Inr s \<Rightarrow> (case seq_out rs of Inl e \<Rightarrow> Inl e | Inr t \<Rightarrow> Inr (s @ t)))"

fun walk :: "tdot \<Rightarrow> tnode \<Rightarrow> error + string" where
  "walk d (TText s) = Inr s"
| "walk d (TAction e) =
     (case evalPipeline d e of Inl err \<Rightarrow> Inl err | Inr v \<Rightarrow> Inr (printValue v))"
| "walk d (TIf c body) =
     (case evalPipeline d c of Inl err \<Rightarrow> Inl err
      | Inr v \<Rightarrow> if isTrue v then seq_out (map (walk d) body) else Inr [])"
| "walk d (TRange e body) =
     (case evalPipeline d e of Inl err \<Rightarrow> Inl err
      | Inr (RVal (TStrings xs)) \<Rightarrow>
          seq_out (map (\<lambda>x. seq_out (map (walk (DVal (TString x))) body)) xs)
      | Inr (RVal TNoValue) \<Rightarrow> Inr []
      | Inr _ \<Rightarrow> Inl (Err ''range can't iterate over value''))"

definition Execute :: "tnode list \<Rightarrow> (string \<rightharpoonup> tval) \<Rightarrow> error + string" where
  "Execute tpl data = seq_out (map (walk (DMap data)) tpl)"

subsection \<open>\<^verbatim>\<open>generateDockerfile\<close> (lines 164--195)\<close>

text \<open>The template literal of lines 165--178, parsed; \<^verbatim>\<open>Parse\<close> accepts it.\<close>

definition dq :: string where
  "dq = [CHR 0x22]"

definition t1 :: "tnode list" where
  "t1 =
    [TText ''\<newline>FROM '', TAction (Arg (Field ''run_image'')), TText ''\<newline>'',
     TIf (Ne (Field ''port'') (Lit ''-1''))
       [TText ''\<newline>ENV DOCKER_LAMBDA_API_PORT='', TAction (Arg (Field ''port'')),
        TText ''\<newline>ENV DOCKER_LAMBDA_RUNTIME_PORT='', TAction (Arg (Field ''port'')),
        TText ''\<newline>''],
     TText ''\<newline>'',
     TRange (Arg (Field ''env''))
       [TText ''\<newline>ENV '', TAction (Arg Dot), TText ''\<newline>''],
     TText ''\<newline>'',
     TIf (Ne (Field ''command'') (Lit ''''))
       [TText (''\<newline>CMD ['' @ dq), TAction (Arg (Field ''cmd'')),
        TText (dq @ '']\<newline>'')],
     TText ''\<newline>COPY . /var/task\<newline>'']"

definition template_data :: "string \<Rightarrow> Config \<Rightarrow> (string \<rightharpoonup> tval)" where
  "template_data cmd config =
     [''cmd'' \<mapsto> TString cmd,
      ''env'' \<mapsto> TStrings (ImageEnv config),
      ''port'' \<mapsto> TString (Itoa (Port config)),
      ''run_image'' \<mapsto> TString (BuilderRunImage config)]"

text \<open>
  The result is the error returned or the text that \<^verbatim>\<open>tpl.Execute\<close> writes to the
  Dockerfile handle.
\<close>

definition generateDockerfile :: "string \<Rightarrow> Config \<Rightarrow> error + string" where
  "generateDockerfile cmd config =
     (case Execute t1 (template_data cmd config) of
        Inl err \<Rightarrow> Inl (Err (''error writing Dockerfile: '' @ Error err))
      | Inr text \<Rightarrow> Inr text)"

text \<open>
  The pieces of the rendered text, named for the statements below: the base-image line,
  the two port lines, one runtime environment line, the entrypoint line.
\<close>

definition from_line :: "Config \<Rightarrow> string" where
  "from_line config = ''\<newline>FROM '' @ htmlEscaper (BuilderRunImage config) @ ''\<newline>''"

definition port_env_lines :: "int \<Rightarrow> string" where
  "port_env_lines p =
     ''\<newline>ENV DOCKER_LAMBDA_API_PORT='' @ Itoa p @
     ''\<newline>ENV DOCKER_LAMBDA_RUNTIME_PORT='' @ Itoa p @ ''\<newline>''"

definition env_line :: "string \<Rightarrow> string" where
  "env_line e = ''\<newline>ENV '' @ htmlEscaper e @ ''\<newline>''"

definition cmd_line :: "string \<Rightarrow> string" where
  "cmd_line cmd = ''\<newline>CMD ['' @ dq @ htmlEscaper cmd @ dq @ '']\<newline>''"

text \<open>A configuration to evaluate the definitions on.\<close>

definition example_config :: Config where
  "example_config =
     \<lparr>BuildEnv = [], Builder = ''go'', BuilderBuildImage = ''lambci/lambda:build-go1.x'',
      BuilderRunImage = ''mlupin/docker-lambda:provided.al2'', GenerateRunImage = True,
      Handler = [], HandlerMap = Map.empty, Identifier = ''b1'', ImageEnv = [],
      ImageLabels = [], ImageTag = [], Port = - 1, RunQuiet = False,
      WorkingDirectory = ''/app'', WriteProcfile = True\<rparr>"

subsection \<open>The world outside: files, external commands, libraries\<close>

text \<open>
  A file reads completely, cannot be opened, or fails while being read after delivering
  a prefix of its bytes. The file system maps a path to its file.
\<close>

type_synonym path = string

datatype fnode = Contents string | OpenFails error | ReadFails string error

type_synonym fsys = "path \<rightharpoonup> fnode"

text \<open>The task handed to \<^verbatim>\<open>go-execute\<close> (\<^verbatim>\<open>execute.ExecTask\<close>).\<close>

record ExecTask =
  Args :: "string list"
  Command :: string
  Cwd :: string
  StreamStdio :: bool

text \<open>
  What the operating system and the libraries decide is a parameter of the model:
  the outcome of running a task (a launch error or the exit code, and the files it
  leaves), of creating the temporary directory and the temporary file, of decoding
  an archive into its entries, of \<^verbatim>\<open>yaml.Unmarshal\<close> into the zero document, and
  whether writing to a path fails. \<^verbatim>\<open>getFunctionHandler\<close> is a function of the package
  that is not in \<^verbatim>\<open>main.go\<close>; it is a parameter as well.
\<close>

record sys =
  run_task :: "ExecTask \<Rightarrow> fsys \<Rightarrow> (error + int) \<times> fsys"
  mkdirTemp :: "error + path"
  tempFile :: "error + path"
  unzip :: "string \<Rightarrow> error + (string \<times> string) list"
  unmarshal :: "string \<Rightarrow> error + LambdaYML"
  write_error :: "path \<Rightarrow> error option"
  getFunctionHandler :: "path \<Rightarrow> Config \<Rightarrow> fsys \<Rightarrow> string"

text \<open>
  The state threaded through the pipeline: the files, and the effects performed so far
  in order. Console output is not part of the model.
\<close>

datatype effect =
    Ran ExecTask
  | MadeTempDir path
  | Extracted path
  | Wrote path string
  | MadeTempFile path
  | Removed path
  | RemovedAll path

record world =
  files :: fsys
  log :: "effect list"

text \<open>A call returns its error value (\<open>None\<close> for \<^verbatim>\<open>nil\<close>) or panics.\<close>

datatype outcome = Returned "error option" | Panic string

subsection \<open>Paths and files (\<^verbatim>\<open>path/filepath\<close>, \<^verbatim>\<open>os\<close>, \<^verbatim>\<open>io/ioutil\<close>)\<close>

text \<open>
  \<^verbatim>\<open>filepath.Join\<close> of a directory and a file name, for a directory path that is already
  clean (the normalisation by \<^verbatim>\<open>Clean\<close> is not modelled); \<^verbatim>\<open>filepath.Base\<close> as
  written in the library, for slash-separated paths.
\<close>

definition Join :: "path \<Rightarrow> string \<Rightarrow> path" where
  "Join dir name = (if dir = [] then name else dir @ ''/'' @ name)"

definition Base :: "path \<Rightarrow> string" where
  "Base p =
     (if p = [] then ''.''
      else let q = rev (dropWhile (\<lambda>c. c = CHR ''/'') (rev p));
               b = rev (takeWhile (\<lambda>c. c \<noteq> CHR ''/'') (rev q))
           in if b = [] then ''/'' else b)"

definition ReadFile :: "fsys \<Rightarrow> path \<Rightarrow> string \<times> error option" where
  "ReadFile fs p =
     (case fs p of
        None \<Rightarrow> ([], Some (Err (''open '' @ p @ '': no such file or directory'')))
      | Some (Contents d) \<Rightarrow> (d, None)
      | Some (OpenFails e) \<Rightarrow> ([], Some e)
      | Some (ReadFails d e) \<Rightarrow> (d, Some e))"

definition RemoveAll :: "path \<Rightarrow> world \<Rightarrow> world" where
  "RemoveAll dir s =
     s\<lparr>files := (\<lambda>p. if p = dir \<or> prefix (dir @ ''/'') p then None else files s p),
       log := log s @ [RemovedAll dir]\<rparr>"

definition Remove :: "path \<Rightarrow> world \<Rightarrow> world" where
  "Remove p s = s\<lparr>files := (files s)(p := None), log := log s @ [Removed p]\<rparr>"

definition write_file :: "sys \<Rightarrow> path \<Rightarrow> string \<Rightarrow> world \<Rightarrow> error option \<times> world" where
  "write_file y p text s =
     (case write_error y p of
        Some e \<Rightarrow> (Some e, s)
      | None \<Rightarrow> (None, s\<lparr>files := (files s)(p \<mapsto> Contents text), log := log s @ [Wrote p text]\<rparr>))"

text \<open>
  Modelled from the spec: \<^verbatim>\<open>io.FileExistsInDirectory\<close> (package \<^verbatim>\<open>lambda-builder/io\<close>,
  one of the ``generic filesystem-existence helpers'') is not in \<^verbatim>\<open>main.go\<close>; it
  reports whether the directory has a file of that name.
\<close>

definition FileExistsInDirectory :: "fsys \<Rightarrow> path \<Rightarrow> string \<Rightarrow> bool" where
  "FileExistsInDirectory fs dir name = (fs (Join dir name) \<noteq> None)"

text \<open>
  Modelled from the spec: \<^verbatim>\<open>writeProcfile\<close> is not in \<^verbatim>\<open>main.go\<close>; it writes the
  process-declaration file of a directory, a ``single line mapping a fixed process type
  to the resolved handler string'' (\<^verbatim>\<open>web: <handler>\<close>), and fails when the write fails.
\<close>

definition procfile_line :: "string \<Rightarrow> string" where
  "procfile_line handler = ''web: '' @ handler @ ''\<newline>''"

definition writeProcfile :: "sys \<Rightarrow> string \<Rightarrow> path \<Rightarrow> world \<Rightarrow> error option \<times> world" where
  "writeProcfile y handler dir s = write_file y (Join dir ''Procfile'') (procfile_line handler) s"

text \<open>
  \<^verbatim>\<open>extract.Zip\<close> on the bytes read: \<^verbatim>\<open>archive/zip\<close> rejects an input shorter than the
  22 bytes of an end-of-central-directory record; otherwise the decoder decides, and the
  entries land under the destination.
\<close>

definition extract_Zip :: "sys \<Rightarrow> string \<Rightarrow> path \<Rightarrow> world \<Rightarrow> error option \<times> world" where
  "extract_Zip y data location s =
     (if length data < 22 then (Some (Err ''Read the zip file: zip: not a valid zip file''), s)
      else case unzip y data of
        Inl e \<Rightarrow> (Some e, s)
      | Inr entries \<Rightarrow>
          (None, s\<lparr>files := fold (\<lambda>(name, d) fs. fs(Join location name \<mapsto> Contents d))
                                entries (files s),
                    log := log s @ [Extracted location]\<rparr>))"

subsection \<open>\<^verbatim>\<open>GetImageTag\<close> (lines 47--54)\<close>

definition GetImageTag :: "Config \<Rightarrow> string" where
  "GetImageTag c =
     (if ImageTag c \<noteq> [] then ImageTag c
      else ''lambda-builder/'' @ Base (WorkingDirectory c) @ '':latest'')"

subsection \<open>\<^verbatim>\<open>ParseLambdaYML\<close>, \<^verbatim>\<open>getBuildImage\<close>, \<^verbatim>\<open>getRunImage\<close> (lines 231--287)\<close>

definition zero_LambdaYML :: LambdaYML where
  "zero_LambdaYML = \<lparr>Builder_yml = [], BuildImage = [], RunImage = []\<rparr>"

definition ParseLambdaYML :: "sys \<Rightarrow> fsys \<Rightarrow> Config \<Rightarrow> error + LambdaYML" where
  "ParseLambdaYML y fs config =
     (if \<not> FileExistsInDirectory fs (WorkingDirectory config) ''lambda.yml''
      then Inr zero_LambdaYML
      else case fs (Join (WorkingDirectory config) ''lambda.yml'') of
        None \<Rightarrow> Inl (Wrapped ''error opening lambda.yml'' (Err ''no such file or directory''))
      | Some (OpenFails e) \<Rightarrow> Inl (Wrapped ''error opening lambda.yml'' e)
      | Some (ReadFails d e) \<Rightarrow> Inl (Wrapped ''error reading lambda.yml'' e)
      | Some (Contents bytes) \<Rightarrow>
          (case unmarshal y bytes of
             Inl e \<Rightarrow> Inl (Wrapped ''error unmarshaling lambda.yml'' e)
           | Inr lambdaYML \<Rightarrow> Inr lambdaYML))"

definition getBuildImage :: "sys \<Rightarrow> fsys \<Rightarrow> Config \<Rightarrow> string \<Rightarrow> error + string" where
  "getBuildImage y fs config defaultImage =
     (if BuilderBuildImage config \<noteq> [] then Inr (BuilderBuildImage config)
      else case ParseLambdaYML y fs config of
        Inl err \<Rightarrow> Inl err
      | Inr lambdaYML \<Rightarrow>
          if BuildImage lambdaYML = [] then Inr defaultImage else Inr (BuildImage lambdaYML))"

definition getRunImage :: "sys \<Rightarrow> fsys \<Rightarrow> Config \<Rightarrow> string \<Rightarrow> error + string" where
  "getRunImage y fs config defaultImage =
     (if BuilderRunImage config \<noteq> [] then Inr (BuilderRunImage config)
      else case ParseLambdaYML y fs config of
        Inl err \<Rightarrow> Inl err
      | Inr lambdaYML \<Rightarrow>
          if RunImage lambdaYML = [] then Inr defaultImage else Inr (RunImage lambdaYML))"

text \<open>The precedence in the words of the spec: explicit value, then override, then default.\<close>

definition precedence :: "string \<Rightarrow> string \<Rightarrow> string \<Rightarrow> string" where
  "precedence explicit override dflt =
     (if explicit \<noteq> [] then explicit else if override \<noteq> [] then override else dflt)"

subsection \<open>\<^verbatim>\<open>executeBuildContainer\<close> (lines 129--162)\<close>

text \<open>
  \<^verbatim>\<open>cmd.Execute()\<close> of \<^verbatim>\<open>go-execute\<close>: the task runs on the files as they are, and the run
  is recorded.
\<close>

definition Execute_task :: "sys \<Rightarrow> ExecTask \<Rightarrow> world \<Rightarrow> (error + int) \<times> world" where
  "Execute_task y cmd s =
     (case run_task y cmd (files s) of
        (res, fs) \<Rightarrow> (res, s\<lparr>files := fs, log := log s @ [Ran cmd]\<rparr>))"

definition container_task :: "string \<Rightarrow> Config \<Rightarrow> ExecTask" where
  "container_task script config =
     \<lparr>Args =
        [''container'', ''run'', ''--rm'',
         ''--env'', ''LAMBDA_BUILD_ZIP=1'',
         ''--label'', ''com.dokku.lambda-builder/executor=true'',
         ''--name'', ''lambda-builder-executor-'' @ Identifier config,
         ''--volume'', WorkingDirectory config @ '':/tmp/task'']
        @ concat (map (\<lambda>envPair. [''--env'', envPair]) (BuildEnv config))
        @ [BuilderBuildImage config, ''/bin/bash'', ''-c'', script],
      Command = ''docker'',
      Cwd = WorkingDirectory config,
      StreamStdio = (\<not> RunQuiet config)\<rparr>"

definition executeBuildContainer :: "sys \<Rightarrow> string \<Rightarrow> Config \<Rightarrow> world \<Rightarrow> error option \<times> world" where
  "executeBuildContainer y script config s =
     (case Execute_task y (container_task script config) s of
        (Inl err, s') \<Rightarrow> (Some (Wrapped ''error executing builder'' err), s')
      | (Inr ExitCode, s') \<Rightarrow>
          if ExitCode \<noteq> 0
          then (Some (Err (''error executing builder, exit code '' @ Itoa ExitCode)), s')
          else (None, s'))"

subsection \<open>\<^verbatim>\<open>buildDockerImage\<close> (lines 197--229)\<close>

definition image_task :: "path \<Rightarrow> Config \<Rightarrow> path \<Rightarrow> ExecTask" where
  "image_task directory config dockerfilePath =
     \<lparr>Args =
        [''image'', ''build'',
         ''--file'', dockerfilePath,
         ''--progress'', ''plain'',
         ''--tag'', GetImageTag config]
        @ concat (map (\<lambda>label. [''--label'', label]) (ImageLabels config))
        @ [directory],
      Command = ''docker'',
      Cwd = WorkingDirectory config,
      StreamStdio = (\<not> RunQuiet config)\<rparr>"

definition buildDockerImage :: "sys \<Rightarrow> path \<Rightarrow> Config \<Rightarrow> path \<Rightarrow> world \<Rightarrow> error option \<times> world" where
  "buildDockerImage y directory config dockerfilePath s =
     (case Execute_task y (image_task directory config dockerfilePath) s of
        (Inl err, s') \<Rightarrow> (Some (Wrapped ''error building image'' err), s')
      | (Inr ExitCode, s') \<Rightarrow>
          if ExitCode \<noteq> 0
          then (Some (Err (''error building image, exit code '' @ Itoa ExitCode)), s')
          else (None, s'))"

subsection \<open>\<^verbatim>\<open>executeBuilder\<close> (lines 62--127)\<close>

text \<open>
  Lines 84--101: the process-declaration file is written to the working directory and to
  the build directory when writing is enabled, the build directory has no such file yet
  and a handler was found.
\<close>

definition executeBuilder_Procfile ::
  "sys \<Rightarrow> string \<Rightarrow> Config \<Rightarrow> path \<Rightarrow> world \<Rightarrow> error option \<times> world" where
  "executeBuilder_Procfile y handler config taskHostBuildDir s =
     (if WriteProcfile config \<and> \<not> FileExistsInDirectory (files s) taskHostBuildDir ''Procfile''
      then
        if handler = [] then (None, s)
        else
          (case writeProcfile y handler (WorkingDirectory config) s of
             (Some err, s1) \<Rightarrow>
               (Some (Wrapped ''error writing Procfile to working directory'' err), s1)
           | (None, s1) \<Rightarrow>
               (case writeProcfile y handler taskHostBuildDir s1 of
                  (Some err, s2) \<Rightarrow>
                    (Some (Wrapped ''error writing Procfile to temporary build directory'' err), s2)
                | (None, s2) \<Rightarrow> (None, s2)))
      else (None, s))"

text \<open>
  Lines 103--124, entered when \<^verbatim>\<open>config.GenerateRunImage\<close> holds. The closure that removes
  the temporary file is deferred at lines 108--110, before the error of \<^verbatim>\<open>ioutil.TempFile\<close>
  is looked at: when \<^verbatim>\<open>TempFile\<close> fails its handle is \<^verbatim>\<open>nil\<close>, the \<^verbatim>\<open>return\<close> of line 113 runs
  the closure, and \<^verbatim>\<open>dockerfilePath.Name()\<close> dereferences the \<^verbatim>\<open>nil\<close> handle. Otherwise the
  closure removes the file on every way out. The text of \<^verbatim>\<open>generateDockerfile\<close> is written
  to the handle; a failed write is the error of \<^verbatim>\<open>tpl.Execute\<close>.
\<close>

definition executeBuilder_image ::
  "sys \<Rightarrow> string \<Rightarrow> Config \<Rightarrow> path \<Rightarrow> world \<Rightarrow> outcome \<times> world" where
  "executeBuilder_image y handler config taskHostBuildDir s =
     (case tempFile y of
        Inl err \<Rightarrow> (Panic ''runtime error: invalid memory address or nil pointer dereference'', s)
      | Inr dockerfilePath \<Rightarrow>
          (case
             (case generateDockerfile handler config of
                Inl err \<Rightarrow> (Some err, s\<lparr>files := (files s)(dockerfilePath \<mapsto> Contents []),
                                        log := log s @ [MadeTempFile dockerfilePath]\<rparr>)
              | Inr text \<Rightarrow>
                  (case write_file y dockerfilePath text
                          (s\<lparr>files := (files s)(dockerfilePath \<mapsto> Contents []),
                             log := log s @ [MadeTempFile dockerfilePath]\<rparr>) of
                     (Some err, s1) \<Rightarrow> (Some (Err (''error writing Dockerfile: '' @ Error err)), s1)
                   | (None, s1) \<Rightarrow> buildDockerImage y taskHostBuildDir config dockerfilePath s1))
           of (err, s2) \<Rightarrow> (Returned err, Remove dockerfilePath s2)))"

text \<open>
  Lines 76--126, which run under the deferred removal of the build directory: read the
  archive (the error of \<^verbatim>\<open>ReadFile\<close> is dropped at line 78), extract it, find the handler,
  then the two conditional stages.
\<close>

definition executeBuilder_build ::
  "sys \<Rightarrow> Config \<Rightarrow> path \<Rightarrow> world \<Rightarrow> outcome \<times> world" where
  "executeBuilder_build y config taskHostBuildDir s =
     (let zipPath = Join (WorkingDirectory config) ''lambda.zip'';
          data = fst (ReadFile (files s) zipPath)
      in case extract_Zip y data taskHostBuildDir s of
           (Some err, s1) \<Rightarrow>
             (Returned (Some (Wrapped ''error extracting lambda.zip into build context dir'' err)), s1)
         | (None, s1) \<Rightarrow>
             (let handler = getFunctionHandler y taskHostBuildDir config (files s1)
              in case executeBuilder_Procfile y handler config taskHostBuildDir s1 of
                   (Some err, s2) \<Rightarrow> (Returned (Some err), s2)
                 | (None, s2) \<Rightarrow>
                     if GenerateRunImage config
                     then executeBuilder_image y handler config taskHostBuildDir s2
                     else (Returned None, s2)))"

definition executeBuilder :: "sys \<Rightarrow> string \<Rightarrow> Config \<Rightarrow> world \<Rightarrow> outcome \<times> world" where
  "executeBuilder y script config s =
     (case executeBuildContainer y script config s of
        (Some err, s1) \<Rightarrow> (Returned (Some err), s1)
      | (None, s1) \<Rightarrow>
          (case mkdirTemp y of
             Inl err \<Rightarrow> (Returned (Some (Wrapped ''error creating build dir'' err)), s1)
           | Inr taskHostBuildDir \<Rightarrow>
               (case executeBuilder_build y config taskHostBuildDir
                       (s1\<lparr>log := log s1 @ [MadeTempDir taskHostBuildDir]\<rparr>) of
                  (res, s2) \<Rightarrow> (res, RemoveAll taskHostBuildDir s2))))"

text \<open>
  An outside world to evaluate the pipeline on: the sandbox exits with 0 and leaves an
  archive, the archive decodes to one entry, the override document parses to a build and
  a run image, and no write fails.
\<close>

definition example_zip :: string where
  "example_zip = ''PK: bootstrap (stand-in for an archive)''"

definition example_yml :: string where
  "example_yml = ''build_image: custom/python-build; run_image: custom/python-run''"

definition example_sys :: sys where
  "example_sys =
     \<lparr>run_task = (\<lambda>cmd fs. (Inr 0, fs(''/app/lambda.zip'' \<mapsto> Contents example_zip))),
      mkdirTemp = Inr ''/tmp/lambda-builder1'',
      tempFile = Inr ''/tmp/lambda-builder2'',
      unzip = (\<lambda>d. if d = example_zip then Inr [(''bootstrap'', ''ELF'')]
                    else Inl (Err ''zip: not a valid zip file'')),
      unmarshal = (\<lambda>b. if b = example_yml
                    then Inr \<lparr>Builder_yml = [], BuildImage = ''custom/python-build'',
                              RunImage = ''custom/python-run''\<rparr>
                    else Inl (Err ''yaml: unmarshal errors'')),
      write_error = (\<lambda>p. None),
      getFunctionHandler = (\<lambda>dir c fs. if Handler c \<noteq> [] then Handler c else ''bootstrap'')\<rparr>"

definition example_world :: world where
  "example_world = \<lparr>files = Map.empty, log = []\<rparr>"


section \<open>Properties\<close>

subsection \<open>Decimal formatting and escaping\<close>

lemma formatBits_ne: "formatBits n \<noteq> []"
  by (subst formatBits.simps) simp

lemma digit_cases: "(d::nat) < 10 \<Longrightarrow> d \<in> {0, 1, 2, 3, 4, 5, 6, 7, 8, 9}"
  by auto

lemma digit_neq_minus: "d < 10 \<Longrightarrow> digit d \<noteq> CHR ''-''"
  by (drule digit_cases) (auto simp: digit_def)


lemma hd_formatBits: "hd (formatBits n) \<noteq> CHR ''-''"
proof (induction n rule: formatBits.induct)
  case (1 n)
  show ?case
  proof (cases "n < 10")
    case True
    then show ?thesis by (subst formatBits.simps) (simp add: digit_neq_minus)
  next
    case False
    with 1 show ?thesis by (subst formatBits.simps) (simp add: formatBits_ne)
  qed
qed

lemma formatBits_one: "formatBits n = ''1'' \<longleftrightarrow> n = 1"
proof (cases "n < 10")
  case True
  have "digit n = CHR ''1'' \<longleftrightarrow> n = 1" using digit_cases [OF True]
    by (auto simp: digit_def)
  then show ?thesis using True by (subst formatBits.simps) simp
next
  case False
  have "length (formatBits n) \<ge> 2"
    using False formatBits_ne [of "n div 10"]
    by (subst formatBits.simps) (simp add: Suc_le_eq)
  then show ?thesis using False by auto
qed

lemma Itoa_sentinel: "Itoa p = ''-1'' \<longleftrightarrow> p = - 1"
proof (cases "p < 0")
  case True
  then show ?thesis by (auto simp: Itoa_def formatBits_one)
next
  case False
  then have "Itoa p = formatBits (nat p)" by (simp add: Itoa_def)
  then have "hd (Itoa p) \<noteq> CHR ''-''" by (simp add: hd_formatBits)
  then show ?thesis using False by auto
qed

lemma htmlEscaper_id: "\<forall>c \<in> set s. htmlReplacementTable c = [c] \<Longrightarrow> htmlEscaper s = s"
  by (induction s) (simp_all add: htmlEscaper_def)

lemma digit_plain: "d < 10 \<Longrightarrow> htmlReplacementTable (digit d) = [digit d]"
  by (drule digit_cases) (auto simp: digit_def htmlReplacementTable_def)

lemma formatBits_plain: "\<forall>c \<in> set (formatBits n). htmlReplacementTable c = [c]"
proof (induction n rule: formatBits.induct)
  case (1 n)
  show ?case
  proof (cases "n < 10")
    case True
    then show ?thesis by (subst formatBits.simps) (simp add: digit_plain)
  next
    case False
    with 1 show ?thesis by (subst formatBits.simps) (auto simp: digit_plain)
  qed
qed

lemma htmlEscaper_Itoa: "htmlEscaper (Itoa p) = Itoa p"
  by (rule htmlEscaper_id) (use formatBits_plain in \<open>auto simp: Itoa_def htmlReplacementTable_def\<close>)

lemma seq_out_Inr: "seq_out (map (\<lambda>x. Inr (f x)) xs) = Inr (concat (map f xs))"
  by (induction xs) simp_all

lemma generateDockerfile_text:
  "generateDockerfile cmd config =
     Inr (from_line config
          @ (if Port config = - 1 then [] else port_env_lines (Port config))
          @ ''\<newline>'' @ concat (map env_line (ImageEnv config))
          @ ''\<newline>'' @ cmd_line cmd
          @ ''\<newline>COPY . /var/task\<newline>'')"
  by (simp add: generateDockerfile_def Execute_def t1_def template_data_def seq_out_Inr env_line_def [abs_def]
      Itoa_sentinel htmlEscaper_Itoa from_line_def port_env_lines_def cmd_line_def)


subsection \<open>Decimal formatting is injective\<close>

lemma digit_inj: "a < 10 \<Longrightarrow> b < 10 \<Longrightarrow> digit a = digit b \<Longrightarrow> a = b"
  by (drule digit_cases, drule digit_cases) (auto simp: digit_def)

lemma formatBits_single: "n < 10 \<Longrightarrow> formatBits n = [digit n]"
  by (subst formatBits.simps) simp

lemma formatBits_long: "\<not> n < 10 \<Longrightarrow> formatBits n = formatBits (n div 10) @ [digit (n mod 10)]"
  by (subst formatBits.simps) simp

lemma formatBits_inj: "formatBits n = formatBits m \<Longrightarrow> n = m"
proof (induction n arbitrary: m rule: formatBits.induct)
  case (1 n)
  show ?case
  proof (cases "n < 10")
    case True
    show ?thesis
    proof (cases "m < 10")
      case True
      with \<open>n < 10\<close> "1.prems" show ?thesis
        by (simp add: formatBits_single digit_inj)
    next
      case False
      with \<open>n < 10\<close> "1.prems" formatBits_ne [of "m div 10"] show ?thesis
        by (simp add: formatBits_single formatBits_long)
    qed
  next
    case False
    show ?thesis
    proof (cases "m < 10")
      case True
      with False "1.prems" formatBits_ne [of "n div 10"] show ?thesis
        by (simp add: formatBits_single formatBits_long)
    next
      case m: False
      from False m "1.prems"
      have e: "formatBits (n div 10) = formatBits (m div 10)" "digit (n mod 10) = digit (m mod 10)"
        by (simp_all add: formatBits_long)
      from "1.IH" [OF False e(1)] have "n div 10 = m div 10" .
      moreover from e(2) have "n mod 10 = m mod 10"
        by (intro digit_inj) simp_all
      ultimately show ?thesis
        by (metis div_mult_mod_eq)
    qed
  qed
qed

lemma Itoa_inj: "Itoa a = Itoa b \<Longrightarrow> a = b"
proof -
  assume e: "Itoa a = Itoa b"
  have neg: "x < 0 \<Longrightarrow> hd (Itoa x) = CHR ''-''" for x by (simp add: Itoa_def)
  have pos: "\<not> x < 0 \<Longrightarrow> hd (Itoa x) \<noteq> CHR ''-''" for x by (simp add: Itoa_def hd_formatBits)
  show "a = b"
  proof (cases "a < 0")
    case True
    then have "b < 0" using e neg [of a] pos [of b] by auto
    with True e have "nat (- a) = nat (- b)" by (auto simp: Itoa_def dest: formatBits_inj)
    with True \<open>b < 0\<close> show ?thesis by simp
  next
    case False
    then have "\<not> b < 0" using e neg [of b] pos [of a] by auto
    with False e have "nat a = nat b" by (auto simp: Itoa_def dest: formatBits_inj)
    with False \<open>\<not> b < 0\<close> show ?thesis by simp
  qed
qed

subsection \<open>Steps of the pipeline\<close>









lemma executeBuildContainer_ok:
  "run_task y (container_task script config) (files s) = (Inr 0, fs') \<Longrightarrow>
   executeBuildContainer y script config s =
      (None, s\<lparr>files := fs', log := log s @ [Ran (container_task script config)]\<rparr>)"
  by (simp add: executeBuildContainer_def Execute_task_def)

lemma executeBuilder_after_sandbox:
  assumes "run_task y (container_task script config) (files s) = (Inr 0, fs')"
    and "mkdirTemp y = Inr dir"
  shows "executeBuilder y script config s =
     (case executeBuilder_build y config dir
         (s\<lparr>files := fs', log := log s @ [Ran (container_task script config), MadeTempDir dir]\<rparr>) of
        (res, s2) \<Rightarrow> (res, RemoveAll dir s2))"
  unfolding executeBuilder_def executeBuildContainer_ok [OF assms(1)] assms(2)
  by simp

lemma writeProcfile_ok:
  "write_error y (Join dir ''Procfile'') = None \<Longrightarrow>
   writeProcfile y handler dir s =
     (None, s\<lparr>files := (files s)(Join dir ''Procfile'' \<mapsto> Contents (procfile_line handler)),
              log := log s @ [Wrote (Join dir ''Procfile'') (procfile_line handler)]\<rparr>)"
  by (simp add: writeProcfile_def write_file_def)

lemma writeProcfile_fails:
  "write_error y (Join dir ''Procfile'') = Some e \<Longrightarrow> writeProcfile y handler dir s = (Some e, s)"
  by (simp add: writeProcfile_def write_file_def)

lemma executeBuilder_Procfile_skips:
  "\<not> WriteProcfile config \<or> handler = [] \<or> FileExistsInDirectory (files s) dir ''Procfile'' \<Longrightarrow>
   executeBuilder_Procfile y handler config dir s = (None, s)"
  by (auto simp: executeBuilder_Procfile_def)

lemma executeBuilder_Procfile_writes:
  assumes "WriteProcfile config" "handler \<noteq> []"
    and "\<not> FileExistsInDirectory (files s) dir ''Procfile''"
    and "write_error y (Join (WorkingDirectory config) ''Procfile'') = None"
    and "write_error y (Join dir ''Procfile'') = None"
  shows "executeBuilder_Procfile y handler config dir s =
     (None, s\<lparr>files := (files s)
                 (Join (WorkingDirectory config) ''Procfile'' \<mapsto> Contents (procfile_line handler),
                  Join dir ''Procfile'' \<mapsto> Contents (procfile_line handler)),
              log := log s @ [Wrote (Join (WorkingDirectory config) ''Procfile'') (procfile_line handler),
                              Wrote (Join dir ''Procfile'') (procfile_line handler)]\<rparr>)"
  using assms by (simp add: executeBuilder_Procfile_def writeProcfile_ok)

lemma executeBuilder_Procfile_acts:
  assumes "WriteProcfile config" "handler \<noteq> []"
    and "\<not> FileExistsInDirectory (files s) dir ''Procfile''"
  shows "executeBuilder_Procfile y handler config dir s \<noteq> (None, s)"
proof (cases "write_error y (Join (WorkingDirectory config) ''Procfile'')")
  case (Some e)
  with assms show ?thesis
    by (simp add: executeBuilder_Procfile_def writeProcfile_fails)
next
  case None
  show ?thesis
  proof (cases "write_error y (Join dir ''Procfile'')")
    case (Some e)
    with None assms show ?thesis
      by (simp add: executeBuilder_Procfile_def writeProcfile_ok writeProcfile_fails)
  next
    case n2: None
    have "log (snd (executeBuilder_Procfile y handler config dir s)) \<noteq> log s"
      unfolding executeBuilder_Procfile_writes [OF assms None n2] by simp
    then show ?thesis by auto
  qed
qed

lemma executeBuilder_Procfile_succeeds:
  assumes "\<And>p. write_error y p = None"
  shows "\<exists>w'. executeBuilder_Procfile y h c d w = (None, w')"
  by (simp add: executeBuilder_Procfile_def writeProcfile_ok assms)


section \<open>The claims\<close>

text \<open>
  C1. Claimed: the rendered text has a \<^verbatim>\<open>CMD\<close> line if and only if the handler is
  non-empty. The template tests \<^verbatim>\<open>.command\<close>, a key the data map never has (the handler
  is stored under \<^verbatim>\<open>cmd\<close>), so the test compares a missing value with the empty string
  and always succeeds: with the empty handler the text still has the line \<^verbatim>\<open>CMD [""]\<close>.
\<close>

theorem generateDockerfile_empty_handler_emits_CMD:
  "generateDockerfile [] example_config =
     Inr (''\<newline>FROM mlupin/docker-lambda:provided.al2\<newline>\<newline>\<newline>\<newline>CMD ['' @ dq @ dq @
          '']\<newline>\<newline>COPY . /var/task\<newline>'')"
  by (simp add: generateDockerfile_text example_config_def from_line_def cmd_line_def
      htmlEscaper_def htmlReplacementTable_def)

text \<open>
  C2, as claimed: with writing enabled and a non-empty handler, the Procfile step does
  nothing exactly when the working directory already has a Procfile. The code looks for
  the Procfile in the extracted build directory instead (line 85): here the working
  directory has a Procfile, the build directory has none, and the step overwrites the one
  in the working directory and writes the one in the build directory.
\<close>

theorem Procfile_in_working_directory_counterexample:
  "WriteProcfile example_config \<and>
   FileExistsInDirectory [''/app/Procfile'' \<mapsto> Contents ''web: mine'']
     (WorkingDirectory example_config) ''Procfile'' \<and>
   executeBuilder_Procfile example_sys ''bootstrap'' example_config ''/tmp/lambda-builder1''
     \<lparr>files = [''/app/Procfile'' \<mapsto> Contents ''web: mine''], log = []\<rparr> =
   (None,
    \<lparr>files = [''/app/Procfile'' \<mapsto> Contents ''web: bootstrap\<newline>'',
              ''/tmp/lambda-builder1/Procfile'' \<mapsto> Contents ''web: bootstrap\<newline>''],
     log = [Wrote ''/app/Procfile'' ''web: bootstrap\<newline>'',
            Wrote ''/tmp/lambda-builder1/Procfile'' ''web: bootstrap\<newline>'']\<rparr>)"
proof -
  have c: "WriteProcfile example_config" "WorkingDirectory example_config = ''/app''"
    by (simp_all add: example_config_def)
  have w: "write_error example_sys p = None" for p
    by (simp add: example_sys_def)
  have j: "Join ''/app'' ''Procfile'' = ''/app/Procfile''"
    "Join ''/tmp/lambda-builder1'' ''Procfile'' = ''/tmp/lambda-builder1/Procfile''"
    by (simp_all add: Join_def)
  have n: "\<not> FileExistsInDirectory [''/app/Procfile'' \<mapsto> Contents ''web: mine'']
      ''/tmp/lambda-builder1'' ''Procfile''"
    by (simp add: FileExistsInDirectory_def j)
  show ?thesis
    by (simp add: executeBuilder_Procfile_def writeProcfile_ok w c j n procfile_line_def)
       (simp add: FileExistsInDirectory_def j)
qed

text \<open>The same from the start of the pipeline, with an archive that holds no Procfile.\<close>

lemma Procfile_overwritten_end_to_end:
  "WriteProcfile example_config \<and>
   FileExistsInDirectory [''/app/Procfile'' \<mapsto> Contents ''web: mine'']
     (WorkingDirectory example_config) ''Procfile'' \<and>
   fst (executeBuilder example_sys ''make'' (example_config\<lparr>GenerateRunImage := False\<rparr>)
     \<lparr>files = [''/app/Procfile'' \<mapsto> Contents ''web: mine''], log = []\<rparr>) = Returned None \<and>
   log (snd (executeBuilder example_sys ''make'' (example_config\<lparr>GenerateRunImage := False\<rparr>)
     \<lparr>files = [''/app/Procfile'' \<mapsto> Contents ''web: mine''], log = []\<rparr>)) =
     [Ran (container_task ''make'' (example_config\<lparr>GenerateRunImage := False\<rparr>)),
      MadeTempDir ''/tmp/lambda-builder1'', Extracted ''/tmp/lambda-builder1'',
      Wrote ''/app/Procfile'' ''web: bootstrap\<newline>'',
      Wrote ''/tmp/lambda-builder1/Procfile'' ''web: bootstrap\<newline>'',
      RemovedAll ''/tmp/lambda-builder1'']"
proof -
  let ?c = "example_config\<lparr>GenerateRunImage := False\<rparr>"
  let ?s = "\<lparr>files = [''/app/Procfile'' \<mapsto> Contents ''web: mine''], log = []\<rparr>"
  let ?fs = "[''/app/Procfile'' \<mapsto> Contents ''web: mine'', ''/app/lambda.zip'' \<mapsto> Contents example_zip]"
  let ?d = "''/tmp/lambda-builder1''"
  let ?s1 = "?s\<lparr>files := ?fs, log := log ?s @ [Ran (container_task ''make'' ?c), MadeTempDir ?d]\<rparr>"
  have c: "WriteProcfile ?c" "WorkingDirectory ?c = ''/app''" "\<not> GenerateRunImage ?c" "Handler ?c = []"
    by (simp_all add: example_config_def)
  have w: "write_error example_sys p = None" for p
    by (simp add: example_sys_def)
  have j: "Join ''/app'' n = ''/app/'' @ n" "Join ?d n = ?d @ ''/'' @ n" for n
    by (simp_all add: Join_def)
  have h1: "run_task example_sys (container_task ''make'' ?c) (files ?s) = (Inr 0, ?fs)"
    by (simp add: example_sys_def)
  have h2: "mkdirTemp example_sys = Inr ?d"
    by (simp add: example_sys_def)
  have u: "unzip example_sys example_zip = Inr [(''bootstrap'', ''ELF'')]"
    by (simp add: example_sys_def)
  have l: "\<not> length example_zip < 22"
    by (simp add: example_zip_def)
  have g: "getFunctionHandler example_sys dir ?c fs = ''bootstrap''" for dir fs
    by (simp add: example_sys_def c)
  have b: "executeBuilder_build example_sys ?c ?d ?s1 =
     (Returned None,
      \<lparr>files = [''/app/Procfile'' \<mapsto> Contents ''web: bootstrap\<newline>'',
                ''/app/lambda.zip'' \<mapsto> Contents example_zip,
                ''/tmp/lambda-builder1/bootstrap'' \<mapsto> Contents ''ELF'',
                ''/tmp/lambda-builder1/Procfile'' \<mapsto> Contents ''web: bootstrap\<newline>''],
       log = [Ran (container_task ''make'' ?c), MadeTempDir ?d, Extracted ?d,
              Wrote ''/app/Procfile'' ''web: bootstrap\<newline>'',
              Wrote ''/tmp/lambda-builder1/Procfile'' ''web: bootstrap\<newline>'']\<rparr>)"
    by (simp add: executeBuilder_build_def extract_Zip_def ReadFile_def c j u l g
        executeBuilder_Procfile_def FileExistsInDirectory_def writeProcfile_ok w procfile_line_def)
       (rule ext, simp)
  have e: "FileExistsInDirectory [''/app/Procfile'' \<mapsto> Contents ''web: mine'']
     (WorkingDirectory example_config) ''Procfile''"
    by (simp add: FileExistsInDirectory_def example_config_def Join_def)
  show ?thesis
    unfolding executeBuilder_after_sandbox [OF h1 h2] b
    using e by (simp add: RemoveAll_def example_config_def)
qed

text \<open>
  C2, amended: the Procfile step does nothing (no error, state unchanged) when writing is
  disabled, when the handler is empty, or when the extracted build directory already has
  a Procfile; with writing enabled and a non-empty handler it does nothing exactly when
  the build directory has a Procfile; otherwise, when neither write fails, it writes the
  same line to the Procfile of the working directory and to that of the build directory.
\<close>

theorem Procfile_step:
  "(\<not> WriteProcfile config \<or> handler = [] \<or> FileExistsInDirectory (files s) dir ''Procfile''
      \<longrightarrow> executeBuilder_Procfile y handler config dir s = (None, s)) \<and>
   (WriteProcfile config \<and> handler \<noteq> []
      \<longrightarrow> (executeBuilder_Procfile y handler config dir s = (None, s)
            \<longleftrightarrow> FileExistsInDirectory (files s) dir ''Procfile'')) \<and>
   (WriteProcfile config \<and> handler \<noteq> []
      \<and> \<not> FileExistsInDirectory (files s) dir ''Procfile''
      \<and> write_error y (Join (WorkingDirectory config) ''Procfile'') = None
      \<and> write_error y (Join dir ''Procfile'') = None
      \<longrightarrow> executeBuilder_Procfile y handler config dir s =
           (None, s\<lparr>files := (files s)
                 (Join (WorkingDirectory config) ''Procfile'' \<mapsto> Contents (procfile_line handler),
                  Join dir ''Procfile'' \<mapsto> Contents (procfile_line handler)),
              log := log s @ [Wrote (Join (WorkingDirectory config) ''Procfile'') (procfile_line handler),
                              Wrote (Join dir ''Procfile'') (procfile_line handler)]\<rparr>))"
proof (intro conjI impI)
  assume "\<not> WriteProcfile config \<or> handler = [] \<or> FileExistsInDirectory (files s) dir ''Procfile''"
  then show "executeBuilder_Procfile y handler config dir s = (None, s)"
    by (rule executeBuilder_Procfile_skips)
next
  assume a: "WriteProcfile config \<and> handler \<noteq> []"
  show "executeBuilder_Procfile y handler config dir s = (None, s)
            \<longleftrightarrow> FileExistsInDirectory (files s) dir ''Procfile''"
  proof
    assume "executeBuilder_Procfile y handler config dir s = (None, s)"
    then show "FileExistsInDirectory (files s) dir ''Procfile''"
      using executeBuilder_Procfile_acts [of config handler s dir y] a by blast
  next
    assume "FileExistsInDirectory (files s) dir ''Procfile''"
    then show "executeBuilder_Procfile y handler config dir s = (None, s)"
      by (intro executeBuilder_Procfile_skips) simp
  qed
next
  assume "WriteProcfile config \<and> handler \<noteq> []
      \<and> \<not> FileExistsInDirectory (files s) dir ''Procfile''
      \<and> write_error y (Join (WorkingDirectory config) ''Procfile'') = None
      \<and> write_error y (Join dir ''Procfile'') = None"
  then show "executeBuilder_Procfile y handler config dir s =
           (None, s\<lparr>files := (files s)
                 (Join (WorkingDirectory config) ''Procfile'' \<mapsto> Contents (procfile_line handler),
                  Join dir ''Procfile'' \<mapsto> Contents (procfile_line handler)),
              log := log s @ [Wrote (Join (WorkingDirectory config) ''Procfile'') (procfile_line handler),
                              Wrote (Join dir ''Procfile'') (procfile_line handler)]\<rparr>)"
    by (intro executeBuilder_Procfile_writes) simp_all
qed

theorem Procfile_step_witness:
  "executeBuilder_Procfile example_sys ''bootstrap'' (example_config\<lparr>WriteProcfile := False\<rparr>)
     ''/b'' example_world = (None, example_world) \<and>
   executeBuilder_Procfile example_sys ''bootstrap'' example_config ''/b''
     \<lparr>files = [''/b/Procfile'' \<mapsto> Contents ''web: mine''], log = []\<rparr> =
     (None, \<lparr>files = [''/b/Procfile'' \<mapsto> Contents ''web: mine''], log = []\<rparr>) \<and>
   executeBuilder_Procfile example_sys ''bootstrap'' example_config ''/b'' example_world =
     (None,
      \<lparr>files = [''/app/Procfile'' \<mapsto> Contents ''web: bootstrap\<newline>'',
                ''/b/Procfile'' \<mapsto> Contents ''web: bootstrap\<newline>''],
       log = [Wrote ''/app/Procfile'' ''web: bootstrap\<newline>'',
              Wrote ''/b/Procfile'' ''web: bootstrap\<newline>'']\<rparr>)"
proof (intro conjI)
  have c: "WriteProcfile example_config" "WorkingDirectory example_config = ''/app''"
    by (simp_all add: example_config_def)
  have w: "write_error example_sys p = None" for p
    by (simp add: example_sys_def)
  have j: "Join ''/app'' ''Procfile'' = ''/app/Procfile''" "Join ''/b'' ''Procfile'' = ''/b/Procfile''"
    by (simp_all add: Join_def)
  note t = Procfile_step [where y = example_sys and handler = "''bootstrap''" and dir = "''/b''"]
  show "executeBuilder_Procfile example_sys ''bootstrap'' (example_config\<lparr>WriteProcfile := False\<rparr>)
     ''/b'' example_world = (None, example_world)"
    using t [where config = "example_config\<lparr>WriteProcfile := False\<rparr>" and s = example_world]
    by simp
  let ?s = "\<lparr>files = [''/b/Procfile'' \<mapsto> Contents ''web: mine''], log = []\<rparr>"
  have e: "FileExistsInDirectory (files ?s) ''/b'' ''Procfile''"
    by (simp add: FileExistsInDirectory_def j)
  show "executeBuilder_Procfile example_sys ''bootstrap'' example_config ''/b'' ?s = (None, ?s)"
    using t [where config = example_config and s = ?s] c(1) e
    by blast
  have n: "\<not> FileExistsInDirectory (files example_world) ''/b'' ''Procfile''"
    by (simp add: FileExistsInDirectory_def example_world_def)
  have "executeBuilder_Procfile example_sys ''bootstrap'' example_config ''/b'' example_world =
     (None, example_world\<lparr>files := (files example_world)
                 (Join (WorkingDirectory example_config) ''Procfile'' \<mapsto> Contents (procfile_line ''bootstrap''),
                  Join ''/b'' ''Procfile'' \<mapsto> Contents (procfile_line ''bootstrap'')),
              log := log example_world @ [Wrote (Join (WorkingDirectory example_config) ''Procfile'') (procfile_line ''bootstrap''),
                              Wrote (Join ''/b'' ''Procfile'') (procfile_line ''bootstrap'')]\<rparr>)"
    using t [where config = example_config and s = example_world] c(1) n w
    by simp
  then show "executeBuilder_Procfile example_sys ''bootstrap'' example_config ''/b'' example_world =
     (None,
      \<lparr>files = [''/app/Procfile'' \<mapsto> Contents ''web: bootstrap\<newline>'',
                ''/b/Procfile'' \<mapsto> Contents ''web: bootstrap\<newline>''],
       log = [Wrote ''/app/Procfile'' ''web: bootstrap\<newline>'',
              Wrote ''/b/Procfile'' ''web: bootstrap\<newline>'']\<rparr>)"
    by (simp add: c j procfile_line_def example_world_def)
qed

text \<open>
  C3. \<^verbatim>\<open>getBuildImage\<close> and \<^verbatim>\<open>getRunImage\<close> follow the precedence of the spec: a non-empty
  value of the config wins, whatever \<^verbatim>\<open>lambda.yml\<close> holds; otherwise, with the override
  document as \<^verbatim>\<open>ParseLambdaYML\<close> returns it (the zero document when the file is absent), its
  non-empty field wins over the default. The witness runs through the presence
  combinations of the three sources.
\<close>

theorem image_precedence:
  "(BuilderBuildImage config \<noteq> []
      \<longrightarrow> getBuildImage y fs config dflt = Inr (BuilderBuildImage config)) \<and>
   (ParseLambdaYML y fs config = Inr yml
      \<longrightarrow> getBuildImage y fs config dflt
            = Inr (precedence (BuilderBuildImage config) (BuildImage yml) dflt)) \<and>
   (BuilderRunImage config \<noteq> []
      \<longrightarrow> getRunImage y fs config dflt = Inr (BuilderRunImage config)) \<and>
   (ParseLambdaYML y fs config = Inr yml
      \<longrightarrow> getRunImage y fs config dflt
            = Inr (precedence (BuilderRunImage config) (RunImage yml) dflt))"
  by (simp add: getBuildImage_def getRunImage_def precedence_def)


theorem image_precedence_witness:
  "getBuildImage example_sys Map.empty example_config ''d/build'' = Inr ''lambci/lambda:build-go1.x'' \<and>
   getBuildImage example_sys Map.empty example_config [] = Inr ''lambci/lambda:build-go1.x'' \<and>
   getBuildImage example_sys [''/app/lambda.yml'' \<mapsto> Contents example_yml] example_config ''d/build''
     = Inr ''lambci/lambda:build-go1.x'' \<and>
   getBuildImage example_sys [''/app/lambda.yml'' \<mapsto> Contents example_yml] example_config []
     = Inr ''lambci/lambda:build-go1.x'' \<and>
   getBuildImage example_sys [''/app/lambda.yml'' \<mapsto> Contents example_yml]
     (example_config\<lparr>BuilderBuildImage := []\<rparr>) ''d/build'' = Inr ''custom/python-build'' \<and>
   getBuildImage example_sys [''/app/lambda.yml'' \<mapsto> Contents example_yml]
     (example_config\<lparr>BuilderBuildImage := []\<rparr>) [] = Inr ''custom/python-build'' \<and>
   getBuildImage example_sys Map.empty (example_config\<lparr>BuilderBuildImage := []\<rparr>) ''d/build''
     = Inr ''d/build'' \<and>
   getBuildImage example_sys Map.empty (example_config\<lparr>BuilderBuildImage := []\<rparr>) [] = Inr [] \<and>
   getRunImage example_sys [''/app/lambda.yml'' \<mapsto> Contents example_yml] example_config ''d/run''
     = Inr ''mlupin/docker-lambda:provided.al2'' \<and>
   getRunImage example_sys [''/app/lambda.yml'' \<mapsto> Contents example_yml]
     (example_config\<lparr>BuilderRunImage := []\<rparr>) ''d/run'' = Inr ''custom/python-run'' \<and>
   getRunImage example_sys Map.empty (example_config\<lparr>BuilderRunImage := []\<rparr>) ''d/run''
     = Inr ''d/run''"
proof -
  let ?fs = "[''/app/lambda.yml'' \<mapsto> Contents example_yml]"
  let ?yml = "\<lparr>Builder_yml = [], BuildImage = ''custom/python-build'',
                RunImage = ''custom/python-run''\<rparr>"
  have p0: "ParseLambdaYML example_sys Map.empty c = Inr zero_LambdaYML" for c
    by (simp add: ParseLambdaYML_def FileExistsInDirectory_def)
  have p1: "WorkingDirectory c = ''/app'' \<Longrightarrow> ParseLambdaYML example_sys ?fs c = Inr ?yml" for c
    by (simp add: ParseLambdaYML_def FileExistsInDirectory_def Join_def example_sys_def)
  have w: "WorkingDirectory example_config = ''/app''"
    by (simp add: example_config_def)
  note t = image_precedence [where y = example_sys]
  show ?thesis
    using t [where config = example_config and fs = Map.empty and yml = zero_LambdaYML and dflt = "''d/build''"]
      t [where config = example_config and fs = Map.empty and yml = zero_LambdaYML and dflt = "[]"]
      t [where config = example_config and fs = ?fs and yml = ?yml and dflt = "''d/build''"]
      t [where config = example_config and fs = ?fs and yml = ?yml and dflt = "[]"]
      t [where config = "example_config\<lparr>BuilderBuildImage := []\<rparr>" and fs = ?fs and yml = ?yml and dflt = "''d/build''"]
      t [where config = "example_config\<lparr>BuilderBuildImage := []\<rparr>" and fs = ?fs and yml = ?yml and dflt = "[]"]
      t [where config = "example_config\<lparr>BuilderBuildImage := []\<rparr>" and fs = Map.empty and yml = zero_LambdaYML and dflt = "''d/build''"]
      t [where config = "example_config\<lparr>BuilderBuildImage := []\<rparr>" and fs = Map.empty and yml = zero_LambdaYML and dflt = "[]"]
      t [where config = example_config and fs = ?fs and yml = ?yml and dflt = "''d/run''"]
      t [where config = "example_config\<lparr>BuilderRunImage := []\<rparr>" and fs = ?fs and yml = ?yml and dflt = "''d/run''"]
      t [where config = "example_config\<lparr>BuilderRunImage := []\<rparr>" and fs = Map.empty and yml = zero_LambdaYML and dflt = "''d/run''"]
    by (simp add: p0 p1 w precedence_def zero_LambdaYML_def) (simp add: example_config_def)
qed




text \<open>
  C5. When the sandbox exits with a non-zero code, \<^verbatim>\<open>executeBuildContainer\<close> returns an
  error whose message ends in that code (and different codes give different messages),
  \<^verbatim>\<open>executeBuilder\<close> returns the same error, and the only effect performed is the sandbox
  run: no temporary directory, extraction, Procfile or image build. When the sandbox
  cannot be launched, the launch error is returned wrapped, with the same effects.
\<close>

theorem sandbox_failure_aborts:
  "(run_task y (container_task script config) (files s) = (Inr code, fs') \<and> code \<noteq> 0 \<longrightarrow>
      executeBuildContainer y script config s =
        (Some (Err (''error executing builder, exit code '' @ Itoa code)),
         s\<lparr>files := fs', log := log s @ [Ran (container_task script config)]\<rparr>) \<and>
      executeBuilder y script config s =
        (Returned (Some (Err (''error executing builder, exit code '' @ Itoa code))),
         s\<lparr>files := fs', log := log s @ [Ran (container_task script config)]\<rparr>)) \<and>
   (run_task y (container_task script config) (files s) = (Inl err, fs') \<longrightarrow>
      executeBuildContainer y script config s =
        (Some (Wrapped ''error executing builder'' err),
         s\<lparr>files := fs', log := log s @ [Ran (container_task script config)]\<rparr>) \<and>
      executeBuilder y script config s =
        (Returned (Some (Wrapped ''error executing builder'' err)),
         s\<lparr>files := fs', log := log s @ [Ran (container_task script config)]\<rparr>)) \<and>
   (Itoa code = Itoa code' \<longrightarrow> code = code')"
  by (auto simp: executeBuilder_def executeBuildContainer_def Execute_task_def dest: Itoa_inj)

theorem sandbox_failure_aborts_witness:
  "executeBuilder (example_sys\<lparr>run_task := \<lambda>cmd fs. (Inr 2, fs)\<rparr>) ''make'' example_config
      example_world =
     (Returned (Some (Err ''error executing builder, exit code 2'')),
      \<lparr>files = Map.empty, log = [Ran (container_task ''make'' example_config)]\<rparr>) \<and>
   executeBuilder (example_sys\<lparr>run_task := \<lambda>cmd fs. (Inl (Err ''docker: not found''), fs)\<rparr>)
      ''make'' example_config example_world =
     (Returned (Some (Wrapped ''error executing builder'' (Err ''docker: not found''))),
      \<lparr>files = Map.empty, log = [Ran (container_task ''make'' example_config)]\<rparr>)"
proof -
  have i: "Itoa 2 = ''2''"
    by (simp add: Itoa_def formatBits.simps digit_def)
  show ?thesis
    using sandbox_failure_aborts [where y = "example_sys\<lparr>run_task := \<lambda>cmd fs. (Inr 2, fs)\<rparr>"
        and script = "''make''" and config = example_config and s = example_world
        and code = 2 and fs' = Map.empty]
      sandbox_failure_aborts [where
        y = "example_sys\<lparr>run_task := \<lambda>cmd fs. (Inl (Err ''docker: not found''), fs)\<rparr>"
        and script = "''make''" and config = example_config and s = example_world
        and err = "Err ''docker: not found''" and fs' = Map.empty]
    by (simp add: i example_world_def)
qed

text \<open>
  C6. When the working directory has no \<^verbatim>\<open>lambda.yml\<close>, \<^verbatim>\<open>ParseLambdaYML\<close> returns the zero
  document and no error. When it has one that cannot be opened, cannot be read to the end,
  or that \<^verbatim>\<open>yaml.Unmarshal\<close> rejects, \<^verbatim>\<open>ParseLambdaYML\<close> returns an error wrapping the cause.
\<close>

theorem ParseLambdaYML_absent_or_malformed:
  "(fs (Join (WorkingDirectory config) ''lambda.yml'') = None
      \<longrightarrow> ParseLambdaYML y fs config = Inr zero_LambdaYML) \<and>
   (fs (Join (WorkingDirectory config) ''lambda.yml'') = Some (OpenFails e)
      \<longrightarrow> ParseLambdaYML y fs config = Inl (Wrapped ''error opening lambda.yml'' e)) \<and>
   (fs (Join (WorkingDirectory config) ''lambda.yml'') = Some (ReadFails d e)
      \<longrightarrow> ParseLambdaYML y fs config = Inl (Wrapped ''error reading lambda.yml'' e)) \<and>
   (fs (Join (WorkingDirectory config) ''lambda.yml'') = Some (Contents bytes)
      \<and> unmarshal y bytes = Inl e
      \<longrightarrow> ParseLambdaYML y fs config = Inl (Wrapped ''error unmarshaling lambda.yml'' e))"
  by (simp add: ParseLambdaYML_def FileExistsInDirectory_def)

theorem ParseLambdaYML_absent_or_malformed_witness:
  "ParseLambdaYML example_sys Map.empty example_config = Inr zero_LambdaYML \<and>
   ParseLambdaYML example_sys [''/app/lambda.yml'' \<mapsto> OpenFails (Err ''permission denied'')]
      example_config = Inl (Wrapped ''error opening lambda.yml'' (Err ''permission denied'')) \<and>
   ParseLambdaYML example_sys [''/app/lambda.yml'' \<mapsto> ReadFails ''build'' (Err ''input/output error'')]
      example_config = Inl (Wrapped ''error reading lambda.yml'' (Err ''input/output error'')) \<and>
   ParseLambdaYML example_sys [''/app/lambda.yml'' \<mapsto> Contents ''build_image: [''] example_config
     = Inl (Wrapped ''error unmarshaling lambda.yml'' (Err ''yaml: unmarshal errors''))"
proof -
  have p: "Join (WorkingDirectory example_config) ''lambda.yml'' = ''/app/lambda.yml''"
    by (simp add: Join_def example_config_def)
  have u: "unmarshal example_sys ''build_image: ['' = Inl (Err ''yaml: unmarshal errors'')"
    by (simp add: example_sys_def example_yml_def)
  note t = ParseLambdaYML_absent_or_malformed [where config = example_config and y = example_sys]
  show ?thesis
    using t [of Map.empty] t [of "[''/app/lambda.yml'' \<mapsto> OpenFails (Err ''permission denied'')]" "Err ''permission denied''"]
      t [of "[''/app/lambda.yml'' \<mapsto> ReadFails ''build'' (Err ''input/output error'')]" "Err ''input/output error''" "''build''"]
      t [of "[''/app/lambda.yml'' \<mapsto> Contents ''build_image: ['']" "Err ''yaml: unmarshal errors''" _ "''build_image: [''"]
      u
    by (simp add: p)
qed

text \<open>
  C7. The rendered text is a function of the handler and of three fields of the config
  (runtime environment, port, run image) and of nothing else: two configs that agree on
  those render the same text. The runtime environment entries are rendered one line each,
  in the order of \<^verbatim>\<open>config.ImageEnv\<close>, between a head and a tail that do not depend on them.
\<close>

theorem generateDockerfile_deterministic_env_order:
  "(ImageEnv c = ImageEnv c' \<and> Port c = Port c' \<and> BuilderRunImage c = BuilderRunImage c'
      \<longrightarrow> generateDockerfile cmd c = generateDockerfile cmd c') \<and>
   (\<exists>head tail. \<forall>env. generateDockerfile cmd (config\<lparr>ImageEnv := env\<rparr>) =
        Inr (head @ concat (map env_line env) @ tail))"
proof (intro conjI impI)
  assume "ImageEnv c = ImageEnv c' \<and> Port c = Port c' \<and> BuilderRunImage c = BuilderRunImage c'"
  then show "generateDockerfile cmd c = generateDockerfile cmd c'"
    by (simp add: generateDockerfile_text from_line_def)
next
  show "\<exists>head tail. \<forall>env. generateDockerfile cmd (config\<lparr>ImageEnv := env\<rparr>) =
        Inr (head @ concat (map env_line env) @ tail)"
    by (rule exI [of _ "from_line config
            @ (if Port config = - 1 then [] else port_env_lines (Port config)) @ ''\<newline>''"],
        rule exI [of _ "''\<newline>'' @ cmd_line cmd @ ''\<newline>COPY . /var/task\<newline>''"])
       (simp add: generateDockerfile_text from_line_def)
qed

theorem generateDockerfile_deterministic_env_order_witness:
  "generateDockerfile ''main'' (example_config\<lparr>ImageEnv := [''A=1'', ''B=2'']\<rparr>) =
   generateDockerfile ''main''
     (example_config\<lparr>ImageEnv := [''A=1'', ''B=2''], Identifier := ''b2'', RunQuiet := True\<rparr>)"
  using generateDockerfile_deterministic_env_order
    [THEN conjunct1, of "example_config\<lparr>ImageEnv := [''A=1'', ''B=2'']\<rparr>"
      "example_config\<lparr>ImageEnv := [''A=1'', ''B=2''], Identifier := ''b2'', RunQuiet := True\<rparr>"
      "''main''"]
  by simp




text \<open>
  C9. Claimed: \<^verbatim>\<open>executeBuilder\<close> returns an error when creating the temporary Dockerfile
  fails. With the sandbox, the extraction and the Procfile step succeeding and
  \<^verbatim>\<open>ioutil.TempFile\<close> failing, the call does not return: the cleanup deferred before the
  error check dereferences the \<^verbatim>\<open>nil\<close> handle and panics.
\<close>

theorem executeBuilder_TempFile_failure_panics:
  "fst (executeBuilder (example_sys\<lparr>tempFile := Inl (Err ''no space left on device'')\<rparr>)
          ''make'' example_config example_world)
   = Panic ''runtime error: invalid memory address or nil pointer dereference''"
proof -
  let ?y = "example_sys\<lparr>tempFile := Inl (Err ''no space left on device'')\<rparr>"
  let ?fs = "[''/app/lambda.zip'' \<mapsto> Contents example_zip]"
  let ?t = "container_task ''make'' example_config"
  let ?d = "''/tmp/lambda-builder1''"
  let ?s1 = "example_world\<lparr>files := ?fs, log := log example_world @ [Ran ?t, MadeTempDir ?d]\<rparr>"
  have h1: "run_task ?y ?t (files example_world) = (Inr 0, ?fs)"
    by (simp add: example_sys_def example_world_def)
  have h2: "mkdirTemp ?y = Inr ?d"
    by (simp add: example_sys_def)
  have t: "tempFile ?y = Inl (Err ''no space left on device'')"
    by simp
  have g: "GenerateRunImage example_config"
    by (simp add: example_config_def)
  have i: "fst (executeBuilder_image ?y h example_config ?d w) =
      Panic ''runtime error: invalid memory address or nil pointer dereference''" for h w
    unfolding executeBuilder_image_def t by simp
  have z: "\<exists>w. extract_Zip ?y (fst (ReadFile (files ?s1)
       (Join (WorkingDirectory example_config) ''lambda.zip''))) ?d ?s1 = (None, w)"
    by (simp add: extract_Zip_def ReadFile_def Join_def example_config_def example_sys_def
        example_zip_def)
  then obtain w where z': "extract_Zip ?y (fst (ReadFile (files ?s1)
       (Join (WorkingDirectory example_config) ''lambda.zip''))) ?d ?s1 = (None, w)"
    by (elim exE)
  have w: "write_error ?y p = None" for p
    by (simp add: example_sys_def)
  have p: "\<exists>w'. executeBuilder_Procfile ?y h example_config ?d w = (None, w')" for h
    by (rule executeBuilder_Procfile_succeeds) (rule w)
  have "fst (executeBuilder_build ?y example_config ?d ?s1) =
      Panic ''runtime error: invalid memory address or nil pointer dereference''"
  proof -
    obtain w' where p': "executeBuilder_Procfile ?y
        (getFunctionHandler ?y ?d example_config (files w)) example_config ?d w = (None, w')"
      using p [of "getFunctionHandler ?y ?d example_config (files w)"] by (elim exE)
    show ?thesis
      unfolding executeBuilder_build_def Let_def z' prod.case option.case p' using g
      by (simp only: if_True i)
  qed
  then show ?thesis
    unfolding executeBuilder_after_sandbox [OF h1 h2]
    by (simp add: split_beta)
qed

text \<open>
  C10. Every interpolated value (run image, port, each runtime environment entry,
  handler) goes through the HTML escaper; for the handler \<^verbatim>\<open>a&b<c\<close> the rendered text
  does not contain the handler as given, but its escaped form \<^verbatim>\<open>a&amp;b&lt;c\<close>.
\<close>

theorem generateDockerfile_html_escapes:
  "generateDockerfile cmd config =
     Inr (''\<newline>FROM '' @ htmlEscaper (BuilderRunImage config) @ ''\<newline>''
          @ (if Port config = - 1 then []
             else ''\<newline>ENV DOCKER_LAMBDA_API_PORT='' @ htmlEscaper (Itoa (Port config))
                @ ''\<newline>ENV DOCKER_LAMBDA_RUNTIME_PORT='' @ htmlEscaper (Itoa (Port config))
                @ ''\<newline>'')
          @ ''\<newline>''
          @ concat (map (\<lambda>e. ''\<newline>ENV '' @ htmlEscaper e @ ''\<newline>'') (ImageEnv config))
          @ ''\<newline>''
          @ ''\<newline>CMD ['' @ dq @ htmlEscaper cmd @ dq @ '']\<newline>''
          @ ''\<newline>COPY . /var/task\<newline>'') \<and>
   htmlEscaper ''a&b<c'' = ''a&amp;b&lt;c'' \<and>
   (\<exists>txt. generateDockerfile ''a&b<c'' example_config = Inr txt \<and>
      \<not> sublist ''a&b<c'' txt \<and> sublist ''a&amp;b&lt;c'' txt)"
proof (intro conjI)
  show "generateDockerfile cmd config =
     Inr (''\<newline>FROM '' @ htmlEscaper (BuilderRunImage config) @ ''\<newline>''
          @ (if Port config = - 1 then []
             else ''\<newline>ENV DOCKER_LAMBDA_API_PORT='' @ htmlEscaper (Itoa (Port config))
                @ ''\<newline>ENV DOCKER_LAMBDA_RUNTIME_PORT='' @ htmlEscaper (Itoa (Port config))
                @ ''\<newline>'')
          @ ''\<newline>''
          @ concat (map (\<lambda>e. ''\<newline>ENV '' @ htmlEscaper e @ ''\<newline>'') (ImageEnv config))
          @ ''\<newline>''
          @ ''\<newline>CMD ['' @ dq @ htmlEscaper cmd @ dq @ '']\<newline>''
          @ ''\<newline>COPY . /var/task\<newline>'')"
    by (simp add: generateDockerfile_text from_line_def port_env_lines_def cmd_line_def
        env_line_def [abs_def] htmlEscaper_Itoa)
next
  show e: "htmlEscaper ''a&b<c'' = ''a&amp;b&lt;c''"
    by (simp add: htmlEscaper_def htmlReplacementTable_def)
next
  define pre where "pre = ''\<newline>FROM mlupin/docker-lambda:provided.al2\<newline>\<newline>\<newline>\<newline>CMD ['' @ dq"
  define post where "post = dq @ '']\<newline>\<newline>COPY . /var/task\<newline>''"
  have g: "generateDockerfile ''a&b<c'' example_config = Inr (pre @ ''a&amp;b&lt;c'' @ post)"
    by (simp add: generateDockerfile_text example_config_def from_line_def cmd_line_def
      htmlEscaper_def htmlReplacementTable_def pre_def post_def)
  have n: "\<not> sublist ''a&b<c'' (pre @ ''a&amp;b&lt;c'' @ post)"
    by (simp add: sublist_code dq_def pre_def post_def)
  have p: "sublist ''a&amp;b&lt;c'' (pre @ ''a&amp;b&lt;c'' @ post)"
    by (rule sublist_appendI)
  show "\<exists>txt. generateDockerfile ''a&b<c'' example_config = Inr txt \<and>
      \<not> sublist ''a&b<c'' txt \<and> sublist ''a&amp;b&lt;c'' txt"
    using g n p by blast
qed

end
